theory Spec2Isabelle
  imports Complex_Main "HOL-Library.AList"
begin

section \<open>dotenv-azure: the data model of \<^verbatim>\<open>src/dotenv-azure.ts\<close>\<close>

text \<open>
  JavaScript values the class handles. A value of type \<^verbatim>\<open>string | undefined\<close> is a
  \<open>string option\<close> (\<open>None\<close> is \<^verbatim>\<open>undefined\<close>). An object that holds such values
  (\<^verbatim>\<open>VariablesObject\<close>, \<^verbatim>\<open>DotenvParseOutput\<close>, \<^verbatim>\<open>process.env\<close>) is the map of its own
  enumerable properties: \<open>obj k = None\<close> when the object has no own property \<open>k\<close>,
  \<open>obj k = Some None\<close> when the property is there and holds \<^verbatim>\<open>undefined\<close>.
\<close>

type_synonym VariablesObject = "string \<rightharpoonup> string option"

text \<open>What a \<^verbatim>\<open>throw\<close> or a rejected promise of a collaborator carries: an object that
  passes \<^verbatim>\<open>instanceof Error\<close>, with its message, or any other value.\<close>

datatype thrown = ErrorObject string | OtherValue

text \<open>The errors of \<^verbatim>\<open>./errors\<close>, with the arguments their constructors are given here, and
  whatever a collaborator threw, passed on unchanged.\<close>

datatype error =
    MissingAppConfigCredentialsError
  | InvalidKeyVaultUrlError string
  | MissingEnvVarsError bool string string "string list" "thrown option"
  | Thrown thrown

text \<open>IEEE numbers as far as the constructor needs them.\<close>

datatype number = Finite real | PosInfinity | NegInfinity | NaN

text \<open>The values \<^verbatim>\<open>JSON.parse\<close> returns, and \<^verbatim>\<open>undefined\<close>. An \<open>Object\<close> lists its own
  properties.\<close>

datatype jsvalue =
    Undefined
  | Null
  | Boolean bool
  | Number real
  | String string
  | Array "jsvalue list"
  | Object "(string \<times> jsvalue) list"

text \<open>The three attributes of a WHATWG \<^verbatim>\<open>URL\<close> object that the class reads.\<close>

record url =
  href :: string
  origin :: string
  pathname :: string

record ConfigurationSetting =
  key :: string
  setting_value :: "string option"
  contentType :: "string option"

record KeyVaultReferenceInfo =
  vaultUrl :: url
  secretUrl :: url
  secretName :: string
  secretVersion :: "string option"

text \<open>\<^verbatim>\<open>KeyVaultReferences\<close> is the one object the class enumerates (\<^verbatim>\<open>Object.entries\<close>), so
  it keeps its own properties in the order they were created; \<open>Object_entries\<close> below
  gives the order in which they are enumerated.\<close>

type_synonym KeyVaultReferences = "(string \<times> KeyVaultReferenceInfo) list"

record AppConfigurations =
  appConfigVars :: VariablesObject
  keyVaultReferences :: KeyVaultReferences

record AzureCredentials =
  credentials_connectionString :: string

record DotenvAzureOptions =
  opt_rateLimit :: "real option"
  opt_tenantId :: "string option"
  opt_clientId :: "string option"
  opt_clientSecret :: "string option"
  opt_connectionString :: "string option"

text \<open>The instance. \<open>keyVaultClients\<close> holds the vault URLs that have a client.\<close>

record DotenvAzure =
  keyVaultRateLimitMinTime :: number
  connectionString :: "string option"
  tenantId :: "string option"
  clientId :: "string option"
  clientSecret :: "string option"
  keyVaultClients :: "string list"

record DotenvConfigOutput =
  dotenv_parsed :: "VariablesObject option"
  dotenv_error :: "thrown option"

record DotenvParseOptions =
  debug :: "bool option"

record DotenvAzureConfigOptions =
  safe :: "bool option"
  allowEmptyValues :: "bool option"
  example :: "string option"
  path :: "string option"

record DotenvAzureConfigOutput =
  parsed :: VariablesObject
  dotenv :: DotenvConfigOutput
  azure :: VariablesObject

section \<open>What the class calls and does not define\<close>

text \<open>
  The platform and the libraries are parameters:
  \<^item> \<open>js_divide\<close> is the \<^verbatim>\<open>/\<close> of two finite doubles;
  \<^item> \<open>JSON_parse\<close> is \<^verbatim>\<open>JSON.parse\<close>, \<open>None\<close> when it throws;
  \<^item> \<open>new_URL\<close> is \<^verbatim>\<open>new URL(x)\<close>, \<open>None\<close> when it throws;
  \<^item> \<open>new_AppConfigurationClient\<close> is the client built from a connection string together
    with what its \<^verbatim>\<open>listConfigurationSettings()\<close> yields: the constructor throws, or the
    iterator yields a finite sequence of settings and then ends or rejects;
  \<^item> \<open>new_SecretClient\<close> is \<^verbatim>\<open>new SecretClient(url, new DefaultAzureCredential())\<close>,
    \<open>Some t\<close> when it throws \<open>t\<close>;
  \<^item> \<open>getSecret\<close> is \<^verbatim>\<open>getSecret(name, {version})\<close> of the client of a vault: it rejects, or
    resolves to a response whose \<^verbatim>\<open>value\<close> is returned;
  \<^item> \<open>dotenv_config\<close> is \<^verbatim>\<open>dotenv.config\<close>: its output, and \<^verbatim>\<open>process.env\<close> as it leaves it;
  \<^item> \<open>dotenv_parse\<close> is \<^verbatim>\<open>dotenv.parse\<close>;
  \<^item> \<open>example_keys\<close> is \<^verbatim>\<open>Object.keys(dotenv.parse(fs.readFileSync(example)))\<close>;
  \<^item> \<open>race\<close> is what the timing of the limiter and of the network decides when some of the
    scheduled secret requests reject: which of the rejecting tasks rejects first (its
    position among them, counted from 0), and how many further tasks the limiter has
    started by then.
\<close>

record listing =
  settings :: "ConfigurationSetting list"
  failure :: "thrown option"

record world =
  js_divide :: "real \<Rightarrow> real \<Rightarrow> number"
  JSON_parse :: "string \<Rightarrow> jsvalue option"
  new_URL :: "jsvalue \<Rightarrow> url option"
  new_AppConfigurationClient :: "string \<Rightarrow> thrown + listing"
  new_SecretClient :: "string \<Rightarrow> thrown option"
  getSecret :: "string \<Rightarrow> string \<Rightarrow> string option \<Rightarrow> thrown + string option"
  dotenv_config :: "DotenvAzureConfigOptions \<Rightarrow> VariablesObject \<Rightarrow> DotenvConfigOutput \<times> VariablesObject"
  dotenv_parse :: "string \<Rightarrow> DotenvParseOptions option \<Rightarrow> VariablesObject"
  example_keys :: "string \<Rightarrow> thrown + string list"
  race :: "(string \<times> KeyVaultReferenceInfo) list \<Rightarrow> nat \<times> nat"

text \<open>What a call has left behind when it returns: the instance (its client registry
  grows), \<^verbatim>\<open>process.env\<close>, and the calls made to the outside so far, oldest first.\<close>

datatype event =
    NewAppConfigurationClient string
  | ListConfigurationSettings
  | NewSecretClient string
  | GetSecret string string "string option"
  | ConsoleWarn "string list"

record state =
  self :: DotenvAzure
  process_env :: VariablesObject
  events :: "event list"

section \<open>JavaScript operators\<close>

definition truthy :: "string option \<Rightarrow> bool" where
  "truthy v = (v \<noteq> None \<and> v \<noteq> Some [])"

text \<open>\<^verbatim>\<open>a || b\<close>\<close>

definition js_or :: "string option \<Rightarrow> string option \<Rightarrow> string option" where
  "js_or a b = (if truthy a then a else b)"

text \<open>\<^verbatim>\<open>obj.k\<close> for a key that \<^verbatim>\<open>Object.prototype\<close> does not define.\<close>

definition get_prop :: "VariablesObject \<Rightarrow> string \<Rightarrow> string option" where
  "get_prop obj k = (case obj k of None \<Rightarrow> None | Some v \<Rightarrow> v)"

text \<open>\<^verbatim>\<open>...obj\<close> in an object literal; \<^verbatim>\<open>{ ...a, ...b }\<close> is \<open>spread a ++ spread b\<close>.\<close>

definition spread :: "VariablesObject option \<Rightarrow> VariablesObject" where
  "spread obj = (case obj of None \<Rightarrow> Map.empty | Some m \<Rightarrow> m)"

text \<open>\<^verbatim>\<open>obj[k] = v\<close> on an object created by \<^verbatim>\<open>{}\<close>. The key \<^verbatim>\<open>__proto__\<close> is the accessor of
  \<^verbatim>\<open>Object.prototype\<close>: assigning a string or \<^verbatim>\<open>undefined\<close> to it does nothing, assigning an
  object replaces the prototype; in neither case does the object get an own property.\<close>

definition obj_set :: "string \<Rightarrow> 'v \<Rightarrow> (string \<rightharpoonup> 'v) \<Rightarrow> (string \<rightharpoonup> 'v)" where
  "obj_set k v obj = (if k = ''__proto__'' then obj else obj(k \<mapsto> v))"

definition obj_set_entries :: "string \<Rightarrow> 'v \<Rightarrow> (string \<times> 'v) list \<Rightarrow> (string \<times> 'v) list" where
  "obj_set_entries k v obj = (if k = ''__proto__'' then obj else AList.update k v obj)"

text \<open>\<^verbatim>\<open>s.split(c)\<close> for a one-character separator.\<close>

fun split_str :: "char \<Rightarrow> string \<Rightarrow> string list" where
  "split_str c [] = [[]]"
| "split_str c (x # xs) =
     (if x = c then [] # split_str c xs
      else (case split_str c xs of
              [] \<Rightarrow> [[x]]
            | w # ws \<Rightarrow> (x # w) # ws))"

text \<open>An array element by index, \<^verbatim>\<open>undefined\<close> past the end (as in \<^verbatim>\<open>[, , a, b] = xs\<close>).\<close>

definition element :: "string list \<Rightarrow> nat \<Rightarrow> string option" where
  "element xs i = (if i < length xs then Some (xs ! i) else None)"

text \<open>\<^verbatim>\<open>Math.ceil\<close>\<close>

fun Math_ceil :: "number \<Rightarrow> number" where
  "Math_ceil (Finite x) = Finite (of_int \<lceil>x\<rceil>)"
| "Math_ceil n = n"

section \<open>The class\<close>

subsection \<open>constructor\<close>

definition new_DotenvAzure :: "world \<Rightarrow> DotenvAzureOptions \<Rightarrow> DotenvAzure" where
  "new_DotenvAzure W opts =
     (let rateLimit = (case opt_rateLimit opts of None \<Rightarrow> 45 | Some r \<Rightarrow> r)
      in \<lparr> keyVaultRateLimitMinTime = Math_ceil (js_divide W 1000 rateLimit),
           connectionString = opt_connectionString opts,
           tenantId = opt_tenantId opts,
           clientId = opt_clientId opts,
           clientSecret = opt_clientSecret opts,
           keyVaultClients = [] \<rparr>)"

subsection \<open>getAzureCredentials\<close>

definition getAzureCredentials ::
  "DotenvAzure \<Rightarrow> VariablesObject option \<Rightarrow> VariablesObject \<Rightarrow> error + AzureCredentials" where
  "getAzureCredentials this dotenvVars env =
     (let dotenvVars' = (case dotenvVars of None \<Rightarrow> Map.empty | Some d \<Rightarrow> d);
          vars = dotenvVars' ++ env;
          cs = js_or (connectionString this) (get_prop vars ''AZURE_APP_CONFIG_CONNECTION_STRING'')
      in case cs of
           None \<Rightarrow> Inl MissingAppConfigCredentialsError
         | Some s \<Rightarrow>
             if s = [] then Inl MissingAppConfigCredentialsError
             else Inr \<lparr> credentials_connectionString = s \<rparr>)"

subsection \<open>isKeyVaultReference\<close>

definition isKeyVaultReference :: "ConfigurationSetting \<Rightarrow> bool" where
  "isKeyVaultReference config =
     (contentType config =
        Some ''application/vnd.microsoft.appconfig.keyvaultref+json;charset=utf-8'')"

subsection \<open>getKeyVaultReferenceInfo\<close>

text \<open>\<^verbatim>\<open>value && JSON.parse(value)\<close>: \<^verbatim>\<open>undefined\<close> and the empty string are returned as they
  are, anything else is parsed. \<open>None\<close> is a throw.\<close>

definition value_and_parse :: "world \<Rightarrow> string option \<Rightarrow> jsvalue option" where
  "value_and_parse W v =
     (case v of
        None \<Rightarrow> Some Undefined
      | Some s \<Rightarrow> if s = [] then Some (String []) else JSON_parse W s)"

text \<open>\<^verbatim>\<open>obj.uri\<close>: a TypeError on \<^verbatim>\<open>undefined\<close> and \<^verbatim>\<open>null\<close>, the own property of an object,
  \<^verbatim>\<open>undefined\<close> on everything else.\<close>

fun get_uri :: "jsvalue \<Rightarrow> jsvalue option" where
  "get_uri Undefined = None"
| "get_uri Null = None"
| "get_uri (Object ps) = (case map_of ps ''uri'' of None \<Rightarrow> Some Undefined | Some u \<Rightarrow> Some u)"
| "get_uri v = Some Undefined"

text \<open>The body of the \<^verbatim>\<open>try\<close> block; \<open>None\<close> when any step throws.\<close>

definition getKeyVaultReferenceInfo_try :: "world \<Rightarrow> ConfigurationSetting \<Rightarrow> KeyVaultReferenceInfo option" where
  "getKeyVaultReferenceInfo_try W config =
     (case value_and_parse W (setting_value config) of
        None \<Rightarrow> None
      | Some obj \<Rightarrow>
          (case get_uri obj of
             None \<Rightarrow> None
           | Some uri \<Rightarrow>
               (case new_URL W uri of
                  None \<Rightarrow> None
                | Some keyVaultUrl \<Rightarrow>
                    (let parts = split_str (CHR ''/'') (pathname keyVaultUrl) in
                     case element parts 2 of
                       None \<Rightarrow> None
                     | Some name \<Rightarrow>
                         if name = [] then None
                         else (case new_URL W (String (origin keyVaultUrl)) of
                                 None \<Rightarrow> None
                               | Some vault \<Rightarrow>
                                   Some \<lparr> vaultUrl = vault,
                                          secretUrl = keyVaultUrl,
                                          secretName = name,
                                          secretVersion = element parts 3 \<rparr>)))))"

definition getKeyVaultReferenceInfo :: "world \<Rightarrow> ConfigurationSetting \<Rightarrow> error + KeyVaultReferenceInfo" where
  "getKeyVaultReferenceInfo W config =
     (case getKeyVaultReferenceInfo_try W config of
        None \<Rightarrow> Inl (InvalidKeyVaultUrlError (key config))
      | Some info \<Rightarrow> Inr info)"

subsection \<open>getAppConfigurations\<close>

definition log_event :: "event \<Rightarrow> state \<Rightarrow> state" where
  "log_event e s = s\<lparr> events := events s @ [e] \<rparr>"

text \<open>The body of the \<^verbatim>\<open>for await\<close> loop, over the settings the iterator yields. A throw of
  \<open>getKeyVaultReferenceInfo\<close> leaves the loop and the function.\<close>

fun getAppConfigurations_loop ::
  "world \<Rightarrow> ConfigurationSetting list \<Rightarrow> AppConfigurations \<Rightarrow> error + AppConfigurations" where
  "getAppConfigurations_loop W [] acc = Inr acc"
| "getAppConfigurations_loop W (config # rest) acc =
     (if isKeyVaultReference config then
        (case getKeyVaultReferenceInfo W config of
           Inl e \<Rightarrow> Inl e
         | Inr info \<Rightarrow>
             getAppConfigurations_loop W rest
               (acc\<lparr> keyVaultReferences := obj_set_entries (key config) info (keyVaultReferences acc) \<rparr>))
      else
        getAppConfigurations_loop W rest
          (acc\<lparr> appConfigVars := obj_set (key config) (setting_value config) (appConfigVars acc) \<rparr>))"

definition getAppConfigurations ::
  "world \<Rightarrow> listing \<Rightarrow> state \<Rightarrow> (error + AppConfigurations) \<times> state" where
  "getAppConfigurations W client s =
     (let s' = log_event ListConfigurationSettings s;
          start = \<lparr> appConfigVars = Map.empty, keyVaultReferences = [] \<rparr>
      in case getAppConfigurations_loop W (settings client) start of
           Inl e \<Rightarrow> (Inl e, s')
         | Inr acc \<Rightarrow>
             (case failure client of
                Some t \<Rightarrow> (Inl (Thrown t), s')
              | None \<Rightarrow> (Inr acc, s')))"

subsection \<open>getKeyVaultClient and getSecretsFromKeyVault\<close>

text \<open>\<open>None\<close> is the client (old or new), \<open>Some t\<close> the throw of the constructor. A vault URL
  is the \<^verbatim>\<open>href\<close> of a URL, so it is no property name of \<^verbatim>\<open>Object.prototype\<close>.\<close>

definition getKeyVaultClient :: "world \<Rightarrow> string \<Rightarrow> state \<Rightarrow> thrown option \<times> state" where
  "getKeyVaultClient W vaultURL s =
     (if vaultURL \<in> set (keyVaultClients (self s)) then (None, s)
      else
        (let s' = log_event (NewSecretClient vaultURL) s in
         case new_SecretClient W vaultURL of
           Some t \<Rightarrow> (Some t, s')
         | None \<Rightarrow>
             (None, s'\<lparr> self := (self s')\<lparr> keyVaultClients := keyVaultClients (self s') @ [vaultURL] \<rparr> \<rparr>)))"

text \<open>The arrow function \<^verbatim>\<open>getSecret\<close>: \<open>None\<close> when its promise resolves, \<open>Some t\<close> when it
  rejects with \<open>t\<close>. It writes into \<^verbatim>\<open>secrets\<close>.\<close>

definition getSecret_task ::
  "world \<Rightarrow> string \<Rightarrow> KeyVaultReferenceInfo \<Rightarrow> VariablesObject \<Rightarrow> state
     \<Rightarrow> thrown option \<times> VariablesObject \<times> state" where
  "getSecret_task W k info secrets s =
     (case getKeyVaultClient W (href (vaultUrl info)) s of
        (Some t, s1) \<Rightarrow> (Some t, secrets, s1)
      | (None, s1) \<Rightarrow>
          (let s2 = log_event (GetSecret (href (vaultUrl info)) (secretName info) (secretVersion info)) s1 in
           case getSecret W (href (vaultUrl info)) (secretName info) (secretVersion info) of
             Inl t \<Rightarrow> (Some t, secrets, s2)
           | Inr v \<Rightarrow> (None, obj_set k v secrets, s2)))"

text \<open>
  \<^verbatim>\<open>Object.entries(vars)\<close>: the own properties, those whose key is an array index (a decimal
  numeral without a leading zero, below \<open>2 ^ 32 - 1\<close>) first, in ascending numeric order,
  then the others in the order they were created.
\<close>

definition is_digit :: "char \<Rightarrow> bool" where
  "is_digit c = (c \<in> set ''0123456789'')"

definition index_value :: "string \<Rightarrow> nat" where
  "index_value k = foldl (\<lambda>n c. 10 * n + (of_char c - 48)) 0 k"

definition is_array_index :: "string \<Rightarrow> bool" where
  "is_array_index k =
     (k \<noteq> [] \<and> list_all is_digit k \<and> (k = ''0'' \<or> take 1 k \<noteq> ''0'') \<and>
      index_value k < 2 ^ 32 - 1)"

definition Object_entries :: "(string \<times> 'v) list \<Rightarrow> (string \<times> 'v) list" where
  "Object_entries obj =
     sort_key (\<lambda>entry. index_value (fst entry)) (filter (\<lambda>entry. is_array_index (fst entry)) obj) @
     filter (\<lambda>entry. \<not> is_array_index (fst entry)) obj"

text \<open>
  The tasks given to the limiter, started one after the other in the order they were
  scheduled. Starting a task runs the arrow function up to its \<^verbatim>\<open>await\<close>: the client is
  looked up or built and the request is made. The list returned says for each task
  whether its promise resolves (\<open>None\<close>) or rejects.
\<close>

fun run_scheduled ::
  "world \<Rightarrow> KeyVaultReferences \<Rightarrow> VariablesObject \<Rightarrow> state
     \<Rightarrow> thrown option list \<times> VariablesObject \<times> state" where
  "run_scheduled W [] secrets s = ([], secrets, s)"
| "run_scheduled W (entry # rest) secrets s =
     (case getSecret_task W (fst entry) (snd entry) secrets s of
        (r, secrets', s') \<Rightarrow>
          (case run_scheduled W rest secrets' s' of
             (rs, secrets'', s'') \<Rightarrow> (r # rs, secrets'', s'')))"

text \<open>The tasks that reject, each with its position among all tasks.\<close>

fun rejections :: "thrown option list \<Rightarrow> nat \<Rightarrow> (nat \<times> thrown) list" where
  "rejections [] i = []"
| "rejections (None # rs) i = rejections rs (Suc i)"
| "rejections (Some t # rs) i = (i, t) # rejections rs (Suc i)"

text \<open>
  \<^verbatim>\<open>Object.entries(vars).map(... limiter.schedule ...)\<close> followed by \<^verbatim>\<open>Promise.all\<close>. When no
  task rejects, \<^verbatim>\<open>Promise.all\<close> resolves once all tasks have been started and have resolved,
  and \<^verbatim>\<open>secrets\<close> holds every value. When some tasks reject, \<^verbatim>\<open>Promise.all\<close> rejects with the
  rejection that comes first in time, and the function is left at that moment: the tasks
  started by then are the one that rejected, those scheduled before it, and as many of the
  following ones as the limiter has started meanwhile. Which rejection is first and how
  many tasks have been started is \<open>race\<close>; numbers beyond what is possible count as the
  largest possible ones. What the limiter starts after that moment happens after the
  function has been left and is not in the state it returns.
\<close>

definition getSecretsFromKeyVault ::
  "world \<Rightarrow> KeyVaultReferences \<Rightarrow> state \<Rightarrow> (thrown + VariablesObject) \<times> state" where
  "getSecretsFromKeyVault W vars s =
     (let entries = Object_entries vars in
      case run_scheduled W entries Map.empty s of
        (outcomes, secrets, s_all) \<Rightarrow>
          (case rejections outcomes 0 of
             [] \<Rightarrow> (Inr secrets, s_all)
           | r # rs \<Rightarrow>
               (case race W vars of
                  (first, further) \<Rightarrow>
                    (case (r # rs) ! min first (length rs) of
                       (j, t) \<Rightarrow>
                         (let started = j + 1 + min further (length entries - (j + 1)) in
                          (Inl t, snd (snd (run_scheduled W (take started entries) Map.empty s))))))))"

subsection \<open>loadFromAzure\<close>

definition loadFromAzure ::
  "world \<Rightarrow> VariablesObject option \<Rightarrow> state \<Rightarrow> (error + VariablesObject) \<times> state" where
  "loadFromAzure W dotenvVars s =
     (case getAzureCredentials (self s) dotenvVars (process_env s) of
        Inl e \<Rightarrow> (Inl e, s)
      | Inr credentials \<Rightarrow>
          (let s1 = log_event (NewAppConfigurationClient (credentials_connectionString credentials)) s in
           case new_AppConfigurationClient W (credentials_connectionString credentials) of
             Inl t \<Rightarrow> (Inl (Thrown t), s1)
           | Inr appConfigClient \<Rightarrow>
               (case getAppConfigurations W appConfigClient s1 of
                  (Inl e, s2) \<Rightarrow> (Inl e, s2)
                | (Inr ac, s2) \<Rightarrow>
                    (case getSecretsFromKeyVault W (keyVaultReferences ac) s2 of
                       (Inr keyVaultSecrets, s3) \<Rightarrow>
                         (Inr (appConfigVars ac ++ keyVaultSecrets), s3)
                     | (Inl err, s3) \<Rightarrow>
                         (Inr (appConfigVars ac ++ Map.empty),
                          case err of
                            ErrorObject message \<Rightarrow>
                              log_event
                                (ConsoleWarn [''[Warning] Unable to load secrets from Key Vault: '', message])
                                s3
                          | OtherValue \<Rightarrow> s3)))))"

subsection \<open>validateFromEnvExample\<close>

text \<open>Modelled from the spec: \<^verbatim>\<open>compact\<close> of \<^verbatim>\<open>./utils\<close> is not among the source files. The
  spec has \<^verbatim>\<open>allowEmptyValues\<close> "treat empty-string env values as unset during validation":
  without it, the entries whose value is empty are left out.\<close>

definition compact :: "VariablesObject \<Rightarrow> VariablesObject" where
  "compact obj = (\<lambda>k. case obj k of None \<Rightarrow> None | Some v \<Rightarrow> if truthy v then Some v else None)"

text \<open>Modelled from the spec: \<^verbatim>\<open>difference\<close> of \<^verbatim>\<open>./utils\<close> is not among the source files. The
  spec calls the validation "a simple set-difference check": the keys of the first
  argument that are not keys of the second.\<close>

definition difference :: "string list \<Rightarrow> string set \<Rightarrow> string list" where
  "difference xs ys = filter (\<lambda>x. x \<notin> ys) xs"

definition validateFromEnvExample ::
  "world \<Rightarrow> DotenvAzureConfigOptions \<Rightarrow> thrown option \<Rightarrow> state \<Rightarrow> error option" where
  "validateFromEnvExample W options dotenvError s =
     (let allowEmpty = (case allowEmptyValues options of None \<Rightarrow> False | Some b \<Rightarrow> b);
          example' = (case example options of None \<Rightarrow> ''.env.example'' | Some e \<Rightarrow> e);
          path' = (case path options of None \<Rightarrow> ''.env'' | Some p \<Rightarrow> p);
          processEnv = (if allowEmpty then process_env s else compact (process_env s))
      in case example_keys W example' of
           Inl t \<Rightarrow> Some (Thrown t)
         | Inr exampleVars \<Rightarrow>
             (let missing = difference exampleVars (dom processEnv) in
              if length missing > 0
              then Some (MissingEnvVarsError allowEmpty path' example' missing dotenvError)
              else None))"

subsection \<open>config and parse\<close>

text \<open>Modelled from the spec: \<^verbatim>\<open>populateProcessEnv\<close> of \<^verbatim>\<open>./utils\<close> is not among the source
  files. The spec has the environment sink as "a process-wide key/value store; writing a
  key overwrites any existing value", and \<^verbatim>\<open>config\<close> "applies remote-derived values to the
  sink".\<close>

definition populateProcessEnv :: "VariablesObject \<Rightarrow> state \<Rightarrow> state" where
  "populateProcessEnv variables s = s\<lparr> process_env := process_env s ++ variables \<rparr>"

definition config ::
  "world \<Rightarrow> DotenvAzureConfigOptions \<Rightarrow> state \<Rightarrow> (error + DotenvAzureConfigOutput) \<times> state" where
  "config W options s =
     (let safe' = (case safe options of None \<Rightarrow> False | Some b \<Rightarrow> b);
          dotenvResult = fst (dotenv_config W options (process_env s));
          s0 = s\<lparr> process_env := snd (dotenv_config W options (process_env s)) \<rparr>
      in case loadFromAzure W (dotenv_parsed dotenvResult) s0 of
           (Inl e, s1) \<Rightarrow> (Inl e, s1)
         | (Inr azureVars, s1) \<Rightarrow>
             (let joinedVars = spread (Some azureVars) ++ spread (dotenv_parsed dotenvResult);
                  s2 = populateProcessEnv azureVars s1
              in case (if safe' then validateFromEnvExample W options (dotenv_error dotenvResult) s2
                       else None) of
                   Some e \<Rightarrow> (Inl e, s2)
                 | None \<Rightarrow>
                     (Inr \<lparr> parsed = joinedVars, dotenv = dotenvResult, azure = azureVars \<rparr>, s2)))"

definition parse ::
  "world \<Rightarrow> string \<Rightarrow> DotenvParseOptions option \<Rightarrow> state \<Rightarrow> (error + VariablesObject) \<times> state" where
  "parse W src options s =
     (let dotenvVars = dotenv_parse W src options
      in case loadFromAzure W (Some dotenvVars) s of
           (Inl e, s1) \<Rightarrow> (Inl e, s1)
         | (Inr azureVars, s1) \<Rightarrow> (Inr (spread (Some azureVars) ++ spread (Some dotenvVars)), s1))"

section \<open>A concrete store, vault and local file\<close>

text \<open>
  The scenario of the specification: the local file holds \<^verbatim>\<open>A=1\<close>, the store a plain entry
  \<^verbatim>\<open>B=2\<close> and a reference entry \<^verbatim>\<open>C\<close> that points to the secret \<^verbatim>\<open>s\<close> of one vault, whose
  value is \<^verbatim>\<open>3\<close>. \<open>scenario_JSON_parse\<close>, \<open>scenario_new_URL\<close> and \<open>scenario_divide\<close> give what
  \<^verbatim>\<open>JSON.parse\<close>, \<^verbatim>\<open>new URL\<close> and \<^verbatim>\<open>/\<close> return at the arguments the examples below reach
  (\<^verbatim>\<open>new URL\<close> throws at \<^verbatim>\<open>'null'\<close>, \<^verbatim>\<open>'not a url'\<close> and \<^verbatim>\<open>undefined\<close>; the origin of a URL whose
  scheme is not a special one is the string \<^verbatim>\<open>'null'\<close>; \<^verbatim>\<open>1000 / 45\<close> is the double
  \<^verbatim>\<open>0x1.638e38e38e38ep+4\<close>, and \<^verbatim>\<open>1000 / 333.3333333333333\<close> is the double \<^verbatim>\<open>3\<close>). At every
  other argument they are left as a throw, and as the exact quotient.
\<close>

definition keyvaultref :: string where
  "keyvaultref = ''application/vnd.microsoft.appconfig.keyvaultref+json;charset=utf-8''"

definition scenario_connection :: string where
  "scenario_connection = ''Endpoint=https://store.azconfig.io;Id=id;Secret=c2VjcmV0''"

text \<open>The double nearest to \<open>1000 / 3\<close>, which JavaScript prints as \<^verbatim>\<open>333.3333333333333\<close>.\<close>

definition rate_near_third :: real where
  "rate_near_third = 5864062014805333 / 2 ^ 44"

definition scenario_divide :: "real \<Rightarrow> real \<Rightarrow> number" where
  "scenario_divide a b =
     (if b = 0 then (if a > 0 then PosInfinity else if a < 0 then NegInfinity else NaN)
      else if a = 1000 \<and> b = 45 then Finite (6254999482459022 / 2 ^ 48)
      else if a = 1000 \<and> b = rate_near_third then Finite 3
      else Finite (a / b))"

definition scenario_JSON_parse :: "string \<Rightarrow> jsvalue option" where
  \<open>scenario_JSON_parse s =
     (if s = ''{"uri":"https://kv.vault.azure.net/secrets/s"}''
      then Some (Object [(''uri'', String ''https://kv.vault.azure.net/secrets/s'')])
      else if s = ''{"uri":"https://kv.vault.azure.net/secrets/s/v1"}''
      then Some (Object [(''uri'', String ''https://kv.vault.azure.net/secrets/s/v1'')])
      else if s = ''{"uri":"vault://kv/secrets/s"}''
      then Some (Object [(''uri'', String ''vault://kv/secrets/s'')])
      else if s = ''{"uri":"not a url"}''
      then Some (Object [(''uri'', String ''not a url'')])
      else None)\<close>

definition scenario_new_URL :: "jsvalue \<Rightarrow> url option" where
  "scenario_new_URL x =
     (if x = String ''https://kv.vault.azure.net/secrets/s''
      then Some \<lparr> href = ''https://kv.vault.azure.net/secrets/s'',
                  origin = ''https://kv.vault.azure.net'',
                  pathname = ''/secrets/s'' \<rparr>
      else if x = String ''https://kv.vault.azure.net/secrets/s/v1''
      then Some \<lparr> href = ''https://kv.vault.azure.net/secrets/s/v1'',
                  origin = ''https://kv.vault.azure.net'',
                  pathname = ''/secrets/s/v1'' \<rparr>
      else if x = String ''https://kv.vault.azure.net''
      then Some \<lparr> href = ''https://kv.vault.azure.net/'',
                  origin = ''https://kv.vault.azure.net'',
                  pathname = ''/'' \<rparr>
      else if x = String ''vault://kv/secrets/s''
      then Some \<lparr> href = ''vault://kv/secrets/s'',
                  origin = ''null'',
                  pathname = ''/secrets/s'' \<rparr>
      else None)"

definition setting_B :: ConfigurationSetting where
  "setting_B = \<lparr> key = ''B'', setting_value = Some ''2'', contentType = None \<rparr>"

definition setting_C :: ConfigurationSetting where
  \<open>setting_C = \<lparr> key = ''C'',
                  setting_value = Some ''{"uri":"https://kv.vault.azure.net/secrets/s"}'',
                  contentType = Some keyvaultref \<rparr>\<close>

definition scenario_local :: VariablesObject where
  "scenario_local = [''A'' \<mapsto> Some ''1'']"

definition scenario_world :: world where
  "scenario_world =
     \<lparr> js_divide = scenario_divide,
       JSON_parse = scenario_JSON_parse,
       new_URL = scenario_new_URL,
       new_AppConfigurationClient =
         (\<lambda>c. if c = scenario_connection
              then Inr \<lparr> settings = [setting_B, setting_C], failure = None \<rparr>
              else Inl (ErrorObject ''Invalid connection string'')),
       new_SecretClient = (\<lambda>u. None),
       getSecret =
         (\<lambda>vault name version.
            if vault = ''https://kv.vault.azure.net/'' \<and> name = ''s''
            then Inr (Some ''3'')
            else Inl (ErrorObject ''SecretNotFound'')),
       dotenv_config =
         (\<lambda>options env.
            (\<lparr> dotenv_parsed = Some scenario_local, dotenv_error = None \<rparr>, scenario_local ++ env)),
       dotenv_parse = (\<lambda>src options. if src = ''A=1'' then scenario_local else Map.empty),
       example_keys =
         (\<lambda>file. if file = ''.env.example'' then Inr [''A'', ''B'']
                 else Inl (ErrorObject ''ENOENT'')),
       race = (\<lambda>vars. (0, 0)) \<rparr>"

definition scenario_options :: DotenvAzureOptions where
  "scenario_options =
     \<lparr> opt_rateLimit = None,
       opt_tenantId = None,
       opt_clientId = None,
       opt_clientSecret = None,
       opt_connectionString = None \<rparr>"

definition scenario_config_options :: DotenvAzureConfigOptions where
  "scenario_config_options =
     \<lparr> safe = Some True, allowEmptyValues = None, example = None, path = None \<rparr>"

definition scenario_instance :: DotenvAzure where
  "scenario_instance =
     \<lparr> keyVaultRateLimitMinTime = Finite 23,
       connectionString = None,
       tenantId = None,
       clientId = None,
       clientSecret = None,
       keyVaultClients = [] \<rparr>"

definition scenario_state :: state where
  "scenario_state =
     \<lparr> self = scenario_instance,
       process_env = [''AZURE_APP_CONFIG_CONNECTION_STRING'' \<mapsto> Some scenario_connection],
       events = [] \<rparr>"

definition scenario_info :: KeyVaultReferenceInfo where
  "scenario_info =
     \<lparr> vaultUrl = \<lparr> href = ''https://kv.vault.azure.net/'',
                      origin = ''https://kv.vault.azure.net'',
                      pathname = ''/'' \<rparr>,
       secretUrl = \<lparr> href = ''https://kv.vault.azure.net/secrets/s'',
                       origin = ''https://kv.vault.azure.net'',
                       pathname = ''/secrets/s'' \<rparr>,
       secretName = ''s'',
       secretVersion = None \<rparr>"

definition scenario_fetched :: AppConfigurations where
  "scenario_fetched =
     \<lparr> appConfigVars = [''B'' \<mapsto> Some ''2''],
       keyVaultReferences = [(''C'', scenario_info)] \<rparr>"

text \<open>The state after the store has been listed, and after the one secret has been
  requested.\<close>

definition scenario_listed :: state where
  "scenario_listed =
     scenario_state\<lparr> events :=
       [NewAppConfigurationClient scenario_connection, ListConfigurationSettings] \<rparr>"

definition scenario_requested :: state where
  "scenario_requested =
     \<lparr> self = scenario_instance\<lparr> keyVaultClients := [''https://kv.vault.azure.net/''] \<rparr>,
       process_env = process_env scenario_state,
       events =
         [NewAppConfigurationClient scenario_connection,
          ListConfigurationSettings,
          NewSecretClient ''https://kv.vault.azure.net/'',
          GetSecret ''https://kv.vault.azure.net/'' ''s'' None] \<rparr>"

text \<open>The same store with the vault out of reach: every request rejects, with an \<^verbatim>\<open>Error\<close> or
  with a value that is none.\<close>

definition vault_down :: "thrown \<Rightarrow> world" where
  "vault_down t = scenario_world\<lparr> getSecret := (\<lambda>vault name version. Inl t) \<rparr>"

text \<open>A store that lists the key \<^verbatim>\<open>C\<close> twice (as two labels of one key do), once as a plain
  value and once as a reference.\<close>

definition setting_C_plain :: ConfigurationSetting where
  "setting_C_plain = \<lparr> key = ''C'', setting_value = Some ''plain'', contentType = None \<rparr>"

definition two_labels_world :: world where
  "two_labels_world =
     scenario_world\<lparr> new_AppConfigurationClient :=
       (\<lambda>c. Inr \<lparr> settings = [setting_C_plain, setting_C], failure = None \<rparr>) \<rparr>"

text \<open>Entries with other values: a reference whose URL has a scheme with no origin of its
  own, the reference of the specification's scenario \<^verbatim>\<open>D\<close>, a plain entry whose value looks
  like a reference, and an entry under the key \<^verbatim>\<open>__proto__\<close>.\<close>

definition setting_opaque :: ConfigurationSetting where
  \<open>setting_opaque = \<lparr> key = ''E'',
                       setting_value = Some ''{"uri":"vault://kv/secrets/s"}'',
                       contentType = Some keyvaultref \<rparr>\<close>

definition setting_D :: ConfigurationSetting where
  \<open>setting_D = \<lparr> key = ''D'',
                  setting_value = Some ''{"uri":"not a url"}'',
                  contentType = Some keyvaultref \<rparr>\<close>

definition setting_lookalike :: ConfigurationSetting where
  \<open>setting_lookalike = \<lparr> key = ''F'',
                          setting_value = Some ''{"uri":"https://kv.vault.azure.net/secrets/s"}'',
                          contentType = Some ''application/json'' \<rparr>\<close>


section \<open>Unfolding the class and the scenario\<close>

lemmas class_defs =
  loadFromAzure_def getAzureCredentials_def js_or_def truthy_def get_prop_def spread_def
  log_event_def getAppConfigurations_def isKeyVaultReference_def getKeyVaultReferenceInfo_def
  getKeyVaultReferenceInfo_try_def value_and_parse_def element_def obj_set_def
  obj_set_entries_def getSecretsFromKeyVault_def getSecret_task_def getKeyVaultClient_def
  config_def parse_def validateFromEnvExample_def populateProcessEnv_def compact_def
  difference_def Object_entries_def is_array_index_def is_digit_def index_value_def

lemmas scenario_defs =
  scenario_world_def scenario_state_def scenario_instance_def scenario_local_def
  scenario_connection_def scenario_JSON_parse_def scenario_new_URL_def setting_B_def
  setting_C_def keyvaultref_def scenario_info_def scenario_fetched_def
  scenario_config_options_def vault_down_def two_labels_world_def setting_C_plain_def
  scenario_listed_def scenario_requested_def

section \<open>The credential resolver\<close>



text \<open>
  C10, as the code has it. The resolver tests the two operands of
  \<^verbatim>\<open>this.connectionString || vars.AZURE_APP_CONFIG_CONNECTION_STRING\<close> for truthiness, and at
  these two levels the empty string counts as no value: a constructor-supplied connection
  string that is not empty is used; one that is empty or missing is skipped in favour of
  the value looked up in the overlay of the ambient environment on the local values; and
  when that lookup yields the empty string or nothing, \<open>MissingAppConfigCredentialsError\<close>
  is raised. Inside the lookup the overlay goes by key, not by truthiness: the ambient
  value is the one looked up whenever the ambient environment has the key, also when it
  is the empty string.
\<close>

theorem empty_string_at_both_operands:
  "(connectionString this = Some c \<and> c \<noteq> [] \<longrightarrow>
      getAzureCredentials this dotenvVars env = Inr \<lparr> credentials_connectionString = c \<rparr>) \<and>
   (connectionString this = None \<or> connectionString this = Some [] \<longrightarrow>
      getAzureCredentials this dotenvVars env =
        (case (case env ''AZURE_APP_CONFIG_CONNECTION_STRING'' of
                 Some ambient \<Rightarrow> ambient
               | None \<Rightarrow> get_prop (spread dotenvVars) ''AZURE_APP_CONFIG_CONNECTION_STRING'') of
           None \<Rightarrow> Inl MissingAppConfigCredentialsError
         | Some s \<Rightarrow>
             if s = [] then Inl MissingAppConfigCredentialsError
             else Inr \<lparr> credentials_connectionString = s \<rparr>)) \<and>
   getAzureCredentials (this\<lparr> connectionString := Some [] \<rparr>) dotenvVars env =
     getAzureCredentials (this\<lparr> connectionString := None \<rparr>) dotenvVars env"
  by (auto simp: getAzureCredentials_def js_or_def truthy_def get_prop_def spread_def map_add_def
      split: option.splits)

theorem empty_string_at_both_operands_witness:
  "connectionString (scenario_instance\<lparr> connectionString := Some ''given'' \<rparr>) = Some ''given'' \<and>
   ''given'' \<noteq> [] \<and>
   getAzureCredentials (scenario_instance\<lparr> connectionString := Some ''given'' \<rparr>)
     (Some [''AZURE_APP_CONFIG_CONNECTION_STRING'' \<mapsto> Some ''local'']) Map.empty
     = Inr \<lparr> credentials_connectionString = ''given'' \<rparr> \<and>
   connectionString (scenario_instance\<lparr> connectionString := Some [] \<rparr>) = Some [] \<and>
   getAzureCredentials (scenario_instance\<lparr> connectionString := Some [] \<rparr>)
     (Some [''AZURE_APP_CONFIG_CONNECTION_STRING'' \<mapsto> Some ''local'']) Map.empty
     = Inr \<lparr> credentials_connectionString = ''local'' \<rparr> \<and>
   getAzureCredentials (scenario_instance\<lparr> connectionString := Some [] \<rparr>)
     (Some [''AZURE_APP_CONFIG_CONNECTION_STRING'' \<mapsto> Some []]) Map.empty
     = Inl MissingAppConfigCredentialsError \<and>
   getAzureCredentials (scenario_instance\<lparr> connectionString := Some [] \<rparr>)
     (Some scenario_local) Map.empty
     = Inl MissingAppConfigCredentialsError \<and>
   getAzureCredentials (scenario_instance\<lparr> connectionString := Some [] \<rparr>)
     (Some scenario_local) [''AZURE_APP_CONFIG_CONNECTION_STRING'' \<mapsto> Some ''ambient'']
     = Inr \<lparr> credentials_connectionString = ''ambient'' \<rparr>"
  using
    empty_string_at_both_operands [of "scenario_instance\<lparr> connectionString := Some ''given'' \<rparr>"
      "''given''" "Some [''AZURE_APP_CONFIG_CONNECTION_STRING'' \<mapsto> Some ''local'']" Map.empty]
    empty_string_at_both_operands [of "scenario_instance\<lparr> connectionString := Some [] \<rparr>"
      "''given''" "Some [''AZURE_APP_CONFIG_CONNECTION_STRING'' \<mapsto> Some ''local'']" Map.empty]
    empty_string_at_both_operands [of "scenario_instance\<lparr> connectionString := Some [] \<rparr>"
      "''given''" "Some [''AZURE_APP_CONFIG_CONNECTION_STRING'' \<mapsto> Some []]" Map.empty]
    empty_string_at_both_operands [of "scenario_instance\<lparr> connectionString := Some [] \<rparr>"
      "''given''" "Some scenario_local" Map.empty]
    empty_string_at_both_operands [of "scenario_instance\<lparr> connectionString := Some [] \<rparr>"
      "''given''" "Some scenario_local" "[''AZURE_APP_CONFIG_CONNECTION_STRING'' \<mapsto> Some ''ambient'']"]
  by (simp add: scenario_instance_def scenario_local_def get_prop_def spread_def)

text \<open>
  The claim as it was stated fails at the ambient level: with the local value \<^verbatim>\<open>local\<close> and
  nothing from the constructor, an ambient value that is the empty string raises the
  error, and an absent one lets the local value through.
\<close>

theorem empty_ambient_value_counterexample:
  "getAzureCredentials scenario_instance
     (Some [''AZURE_APP_CONFIG_CONNECTION_STRING'' \<mapsto> Some ''local''])
     [''AZURE_APP_CONFIG_CONNECTION_STRING'' \<mapsto> Some []]
     = Inl MissingAppConfigCredentialsError \<and>
   getAzureCredentials scenario_instance
     (Some [''AZURE_APP_CONFIG_CONNECTION_STRING'' \<mapsto> Some ''local''])
     Map.empty
     = Inr \<lparr> credentials_connectionString = ''local'' \<rparr>"
  by (simp add: getAzureCredentials_def js_or_def truthy_def get_prop_def scenario_instance_def)

section \<open>The secret reference detector\<close>

lemma getAppConfigurations_loop_plain:
  "\<forall>c\<in>set cs. \<not> isKeyVaultReference c \<Longrightarrow>
   getAppConfigurations_loop W cs acc =
     Inr (acc\<lparr> appConfigVars :=
            fold (\<lambda>c vars. obj_set (key c) (setting_value c) vars) cs (appConfigVars acc) \<rparr>)"
  by (induction cs arbitrary: acc) simp_all

text \<open>
  C6. An entry is a secret reference exactly when its content type is the string
  \<^verbatim>\<open>application/vnd.microsoft.appconfig.keyvaultref+json;charset=utf-8\<close>. An entry with any
  other content type, or with none, is stored as a plain value by the loop of
  \<open>getAppConfigurations\<close> without \<open>getKeyVaultReferenceInfo\<close> being called on it: whatever
  \<^verbatim>\<open>JSON.parse\<close> and \<^verbatim>\<open>new URL\<close> would make of its value, a sequence of such entries never
  raises and leaves the references as they were.
\<close>

theorem reference_iff_sentinel:
  "(isKeyVaultReference c \<longleftrightarrow>
      contentType c = Some ''application/vnd.microsoft.appconfig.keyvaultref+json;charset=utf-8'') \<and>
   (contentType c \<noteq> Some ''application/vnd.microsoft.appconfig.keyvaultref+json;charset=utf-8'' \<longrightarrow>
      getAppConfigurations_loop W (c # rest) acc =
        getAppConfigurations_loop W rest
          (acc\<lparr> appConfigVars := obj_set (key c) (setting_value c) (appConfigVars acc) \<rparr>)) \<and>
   ((\<forall>c'\<in>set cs.
       contentType c' \<noteq> Some ''application/vnd.microsoft.appconfig.keyvaultref+json;charset=utf-8'') \<longrightarrow>
      (\<exists>vars. getAppConfigurations_loop W cs acc = Inr (acc\<lparr> appConfigVars := vars \<rparr>)))"
  using getAppConfigurations_loop_plain [of cs W acc] by (auto simp: isKeyVaultReference_def)

theorem reference_iff_sentinel_witness:
  "contentType setting_lookalike \<noteq>
     Some ''application/vnd.microsoft.appconfig.keyvaultref+json;charset=utf-8'' \<and>
   \<not> isKeyVaultReference setting_lookalike \<and>
   value_and_parse scenario_world (setting_value setting_lookalike) =
     Some (Object [(''uri'', String ''https://kv.vault.azure.net/secrets/s'')]) \<and>
   getAppConfigurations_loop scenario_world (setting_lookalike # [])
       \<lparr> appConfigVars = Map.empty, keyVaultReferences = [] \<rparr> =
     getAppConfigurations_loop scenario_world []
       \<lparr> appConfigVars = [''F'' \<mapsto> setting_value setting_lookalike], keyVaultReferences = [] \<rparr> \<and>
   (\<exists>vars. getAppConfigurations_loop scenario_world [setting_lookalike]
       \<lparr> appConfigVars = Map.empty, keyVaultReferences = [] \<rparr> =
     Inr \<lparr> appConfigVars = vars, keyVaultReferences = [] \<rparr>)"
  using reference_iff_sentinel [of setting_lookalike scenario_world "[]"
      "\<lparr> appConfigVars = Map.empty, keyVaultReferences = [] \<rparr>" "[setting_lookalike]"]
  by (simp add: setting_lookalike_def value_and_parse_def scenario_world_def
      scenario_JSON_parse_def obj_set_def)

text \<open>
  C7, as the code has it. Every failure of \<open>getKeyVaultReferenceInfo\<close> is the one error
  \<open>InvalidKeyVaultUrlError\<close> with the key of the entry, and the function returns exactly when
  all of these hold: \<^verbatim>\<open>value && JSON.parse(value)\<close> returns, its \<^verbatim>\<open>uri\<close> can be read, \<^verbatim>\<open>new URL\<close>
  accepts that \<^verbatim>\<open>uri\<close>, the third element of the path split at \<^verbatim>\<open>/\<close> is there and not empty,
  and \<^verbatim>\<open>new URL\<close> accepts the origin of the URL. What it returns then has that third
  element as the secret name, the fourth one (if any) as the version, the URL as the secret
  URL and the URL built from the origin as the vault URL. The last condition is not among
  the three of the claim as it was stated.
\<close>

theorem decoding_fails_iff:
  "(\<forall>e. getKeyVaultReferenceInfo W c = Inl e \<longrightarrow> e = InvalidKeyVaultUrlError (key c)) \<and>
   (getKeyVaultReferenceInfo W c = Inr info \<longleftrightarrow>
      (\<exists>obj uri keyVaultUrl name vault.
         value_and_parse W (setting_value c) = Some obj \<and>
         get_uri obj = Some uri \<and>
         new_URL W uri = Some keyVaultUrl \<and>
         element (split_str (CHR ''/'') (pathname keyVaultUrl)) 2 = Some name \<and>
         name \<noteq> [] \<and>
         new_URL W (String (origin keyVaultUrl)) = Some vault \<and>
         info = \<lparr> vaultUrl = vault, secretUrl = keyVaultUrl, secretName = name,
                  secretVersion = element (split_str (CHR ''/'') (pathname keyVaultUrl)) 3 \<rparr>))"
  by (auto simp: getKeyVaultReferenceInfo_def getKeyVaultReferenceInfo_try_def Let_def
      split: option.splits if_splits)

theorem decoding_fails_iff_witness:
  "getKeyVaultReferenceInfo scenario_world setting_D = Inl (InvalidKeyVaultUrlError ''D'') \<and>
   getKeyVaultReferenceInfo scenario_world setting_C =
     Inr \<lparr> vaultUrl = \<lparr> href = ''https://kv.vault.azure.net/'',
                        origin = ''https://kv.vault.azure.net'', pathname = ''/'' \<rparr>,
           secretUrl = \<lparr> href = ''https://kv.vault.azure.net/secrets/s'',
                         origin = ''https://kv.vault.azure.net'', pathname = ''/secrets/s'' \<rparr>,
           secretName = ''s'', secretVersion = None \<rparr>"
  using
    decoding_fails_iff [of scenario_world setting_D
      "\<lparr> vaultUrl = \<lparr> href = [], origin = [], pathname = [] \<rparr>,
         secretUrl = \<lparr> href = [], origin = [], pathname = [] \<rparr>,
         secretName = [], secretVersion = None \<rparr>"]
    decoding_fails_iff [of scenario_world setting_C
      "\<lparr> vaultUrl = \<lparr> href = ''https://kv.vault.azure.net/'',
                        origin = ''https://kv.vault.azure.net'', pathname = ''/'' \<rparr>,
         secretUrl = \<lparr> href = ''https://kv.vault.azure.net/secrets/s'',
                         origin = ''https://kv.vault.azure.net'', pathname = ''/secrets/s'' \<rparr>,
         secretName = ''s'', secretVersion = None \<rparr>"]
  by (simp add: setting_D_def setting_C_def keyvaultref_def scenario_world_def
      scenario_JSON_parse_def scenario_new_URL_def value_and_parse_def element_def
      getKeyVaultReferenceInfo_def getKeyVaultReferenceInfo_try_def)

text \<open>
  The claim as it was stated fails at the entry \<^verbatim>\<open>E\<close>, whose value is
  \<^verbatim>\<open>{"uri":"vault://kv/secrets/s"}\<close>: the value parses and has a \<^verbatim>\<open>uri\<close>, the \<^verbatim>\<open>uri\<close> parses as
  a URL, the third element of its path is \<^verbatim>\<open>s\<close>, and the error is raised all the same,
  since the origin of that URL is \<^verbatim>\<open>'null'\<close>.
\<close>

theorem opaque_origin_counterexample:
  "value_and_parse scenario_world (setting_value setting_opaque) =
     Some (Object [(''uri'', String ''vault://kv/secrets/s'')]) \<and>
   get_uri (Object [(''uri'', String ''vault://kv/secrets/s'')]) =
     Some (String ''vault://kv/secrets/s'') \<and>
   new_URL scenario_world (String ''vault://kv/secrets/s'') =
     Some \<lparr> href = ''vault://kv/secrets/s'', origin = ''null'', pathname = ''/secrets/s'' \<rparr> \<and>
   element (split_str (CHR ''/'') ''/secrets/s'') 2 = Some ''s'' \<and>
   getKeyVaultReferenceInfo scenario_world setting_opaque = Inl (InvalidKeyVaultUrlError ''E'')"
  by (simp add: setting_opaque_def scenario_world_def scenario_JSON_parse_def
      scenario_new_URL_def value_and_parse_def element_def
      getKeyVaultReferenceInfo_def getKeyVaultReferenceInfo_try_def)

section \<open>The rate limit\<close>

lemma ceiling_of_near_quotient:
  fixes q :: real and n :: int
  assumes n: "0 < n"
    and near: "\<bar>q - 1000 / of_int n\<bar> \<le> (1000 / of_int n) / 2 ^ 53"
    and exact: "1000 / (of_int n :: real) \<in> \<int> \<Longrightarrow> q = 1000 / of_int n"
  shows "\<lceil>q\<rceil> = \<lceil>1000 / (of_int n :: real)\<rceil>"
proof (cases "1000 / (of_int n :: real) \<in> \<int>")
  case True
  then show ?thesis using exact by simp
next
  case False
  define x :: real where "x = 1000 / of_int n"
  define m where "m = \<lceil>x\<rceil>"
  have npos: "0 < (of_int n :: real)" using n by simp
  have xn: "x * of_int n = 1000" using npos by (simp add: x_def)
  have "x \<noteq> of_int m" using False x_def by (metis Ints_of_int)
  then have up: "x < of_int m" and lo: "of_int m - 1 < x"
    unfolding m_def by (linarith)+
  have "of_int (m * n) > (1000 :: real)"
    using up npos xn by (metis mult_strict_right_mono of_int_mult)
  then have "m * n > 1000" by linarith
  then have "m * n \<ge> 1001" by simp
  then have a: "of_int m * of_int n \<ge> (1001 :: real)"
    by (metis of_int_mult of_int_le_iff of_int_numeral)
  have "of_int ((m - 1) * n) < (1000 :: real)"
    using lo npos xn by (metis mult_strict_right_mono of_int_mult of_int_diff of_int_1)
  then have "(m - 1) * n < 1000" by linarith
  then have "(m - 1) * n \<le> 999" by simp
  then have b: "(of_int m - 1) * of_int n \<le> (999 :: real)"
    by (metis of_int_mult of_int_le_iff of_int_numeral of_int_diff of_int_1)
  have err: "x / 2 ^ 53 * of_int n < 1" using xn by simp
  have qn: "\<bar>q - x\<bar> * of_int n < 1"
  proof -
    have "\<bar>q - x\<bar> \<le> x / 2 ^ 53" using near by (simp add: x_def)
    then have "\<bar>q - x\<bar> * of_int n \<le> x / 2 ^ 53 * of_int n"
      using npos by (intro mult_right_mono) simp_all
    then show ?thesis using err by linarith
  qed
  have "q * of_int n < of_int m * of_int n"
  proof -
    have "(q - x) * of_int n \<le> \<bar>q - x\<bar> * of_int n" using npos by (simp add: mult_right_mono)
    then have "q * of_int n < x * of_int n + 1" using qn by (simp add: algebra_simps)
    then show ?thesis using a xn by linarith
  qed
  then have q_up: "q < of_int m" using npos by (simp add: mult_less_cancel_right)
  have "(of_int m - 1) * of_int n < q * of_int n"
  proof -
    have "(x - q) * of_int n \<le> \<bar>q - x\<bar> * of_int n" using npos
      by (simp add: mult_right_mono abs_minus_commute)
    then have "x * of_int n - 1 < q * of_int n" using qn by (simp add: algebra_simps)
    then show ?thesis using b xn by linarith
  qed
  then have q_lo: "of_int m - 1 < q" using npos by (simp add: mult_less_cancel_right)
  have "\<lceil>q\<rceil> = m" using q_up q_lo by (intro ceiling_unique) simp_all
  then show ?thesis by (simp add: m_def x_def)
qed

lemma quotient_1000_45_not_whole: "(1000 :: real) / of_int 45 \<notin> \<int>"
proof
  assume "(1000 :: real) / of_int 45 \<in> \<int>"
  then obtain k :: int where "(1000 :: real) / of_int 45 = of_int k" by (auto elim: Ints_cases)
  then have "(1000 :: real) = of_int (k * 45)" by simp
  then have "1000 = k * 45" by linarith
  then show False by presburger
qed

text \<open>
  C9, as the code has it. With \<open>rate\<close> the \<^verbatim>\<open>rateLimit\<close> given to the constructor, or 45 when
  none is given, the interval is the ceiling of the double \<open>q\<close> that the platform returns
  for \<^verbatim>\<open>1000 / rate\<close> (and that value itself when it is not finite). When \<open>rate\<close> is a positive
  whole number, that is the ceiling of the exact quotient \<open>1000 / rate\<close>: a double division
  returns a finite \<open>q\<close> within the relative error \<open>2 ^ - 53\<close> of the exact quotient, and the
  exact quotient itself when that is a whole number, and no such \<open>q\<close> lies on the other
  side of a whole number. For the default rate the interval is 23.
\<close>

theorem interval_is_ceiling_for_whole_rates:
  "(\<forall>q. js_divide W 1000 (case opt_rateLimit opts of None \<Rightarrow> 45 | Some r \<Rightarrow> r) = Finite q \<longrightarrow>
      keyVaultRateLimitMinTime (new_DotenvAzure W opts) = Finite (of_int \<lceil>q\<rceil>)) \<and>
   ((\<forall>q. js_divide W 1000 (case opt_rateLimit opts of None \<Rightarrow> 45 | Some r \<Rightarrow> r) \<noteq> Finite q) \<longrightarrow>
      keyVaultRateLimitMinTime (new_DotenvAzure W opts) =
        js_divide W 1000 (case opt_rateLimit opts of None \<Rightarrow> 45 | Some r \<Rightarrow> r)) \<and>
   (\<forall>rate n q.
      rate = (case opt_rateLimit opts of None \<Rightarrow> 45 | Some r \<Rightarrow> r) \<and>
      rate = of_int n \<and> 0 < n \<and>
      js_divide W 1000 rate = Finite q \<and>
      \<bar>q - 1000 / rate\<bar> \<le> (1000 / rate) / 2 ^ 53 \<and>
      (1000 / rate \<in> \<int> \<longrightarrow> q = 1000 / rate)
      \<longrightarrow> keyVaultRateLimitMinTime (new_DotenvAzure W opts) = Finite (of_int \<lceil>1000 / rate\<rceil>)) \<and>
   (opt_rateLimit opts = None \<and>
      js_divide W 1000 45 = Finite q45 \<and>
      \<bar>q45 - 1000 / 45\<bar> \<le> (1000 / 45) / 2 ^ 53
      \<longrightarrow> keyVaultRateLimitMinTime (new_DotenvAzure W opts) = Finite 23)"
proof (intro conjI allI impI)
  let ?rate = "case opt_rateLimit opts of None \<Rightarrow> 45 | Some r \<Rightarrow> r"
  have first: "keyVaultRateLimitMinTime (new_DotenvAzure W opts) = Math_ceil (js_divide W 1000 ?rate)"
    by (simp add: new_DotenvAzure_def Let_def)
  {
    fix q assume "js_divide W 1000 ?rate = Finite q"
    then show "keyVaultRateLimitMinTime (new_DotenvAzure W opts) = Finite (of_int \<lceil>q\<rceil>)"
      using first by simp
  }
  {
    assume "\<forall>q. js_divide W 1000 ?rate \<noteq> Finite q"
    then show "keyVaultRateLimitMinTime (new_DotenvAzure W opts) = js_divide W 1000 ?rate"
      using first by (cases "js_divide W 1000 ?rate") simp_all
  }
  {
    fix rate :: real and n :: int and q :: real
    assume h: "rate = ?rate \<and>
      rate = of_int n \<and> 0 < n \<and>
      js_divide W 1000 rate = Finite q \<and>
      \<bar>q - 1000 / rate\<bar> \<le> (1000 / rate) / 2 ^ 53 \<and>
      (1000 / rate \<in> \<int> \<longrightarrow> q = 1000 / rate)"
    then have r: "?rate = rate"
      and rn: "rate = of_int n"
      and d: "js_divide W 1000 rate = Finite q"
      by blast+
    have c: "\<lceil>q\<rceil> = \<lceil>1000 / (of_int n :: real)\<rceil>"
      using h by (intro ceiling_of_near_quotient) auto
    have "keyVaultRateLimitMinTime (new_DotenvAzure W opts) = Math_ceil (js_divide W 1000 rate)"
      using first unfolding r .
    also have "\<dots> = Finite (of_int \<lceil>q\<rceil>)" by (simp add: d)
    also have "\<dots> = Finite (of_int \<lceil>1000 / rate\<rceil>)" by (simp add: c rn)
    finally show "keyVaultRateLimitMinTime (new_DotenvAzure W opts) = Finite (of_int \<lceil>1000 / rate\<rceil>)" .
  }
  {
    assume h: "opt_rateLimit opts = None \<and>
      js_divide W 1000 45 = Finite q45 \<and>
      \<bar>q45 - 1000 / 45\<bar> \<le> (1000 / 45) / 2 ^ 53"
    have "\<lceil>q45\<rceil> = \<lceil>1000 / (of_int 45 :: real)\<rceil>"
      using h quotient_1000_45_not_whole by (intro ceiling_of_near_quotient) auto
    also have "\<dots> = 23" by (simp add: ceiling_eq_iff)
    finally show "keyVaultRateLimitMinTime (new_DotenvAzure W opts) = Finite 23"
      using h first by simp
  }
qed

theorem interval_is_ceiling_for_whole_rates_witness:
  "(45 :: real) = (case opt_rateLimit scenario_options of None \<Rightarrow> 45 | Some r \<Rightarrow> r) \<and>
   (45 :: real) = of_int 45 \<and> (0 :: int) < 45 \<and>
   js_divide scenario_world 1000 45 = Finite (6254999482459022 / 2 ^ 48) \<and>
   \<bar>6254999482459022 / 2 ^ 48 - 1000 / 45\<bar> \<le> ((1000 :: real) / 45) / 2 ^ 53 \<and>
   (1000 :: real) / 45 \<notin> \<int> \<and>
   opt_rateLimit scenario_options = None \<and>
   keyVaultRateLimitMinTime (new_DotenvAzure scenario_world scenario_options) =
     Finite (of_int \<lceil>(6254999482459022 :: real) / 2 ^ 48\<rceil>) \<and>
   keyVaultRateLimitMinTime (new_DotenvAzure scenario_world scenario_options) =
     Finite (of_int \<lceil>(1000 :: real) / 45\<rceil>) \<and>
   keyVaultRateLimitMinTime (new_DotenvAzure scenario_world scenario_options) = Finite 23 \<and>
   js_divide scenario_world 1000 (case opt_rateLimit (scenario_options\<lparr> opt_rateLimit := Some 0 \<rparr>) of
                                    None \<Rightarrow> 45 | Some r \<Rightarrow> r) = PosInfinity \<and>
   keyVaultRateLimitMinTime
     (new_DotenvAzure scenario_world (scenario_options\<lparr> opt_rateLimit := Some 0 \<rparr>)) = PosInfinity"
proof -
  have d: "js_divide scenario_world 1000 45 = Finite (6254999482459022 / 2 ^ 48)"
    by (simp add: scenario_world_def scenario_divide_def rate_near_third_def)
  have near: "\<bar>6254999482459022 / 2 ^ 48 - 1000 / 45\<bar> \<le> ((1000 :: real) / 45) / 2 ^ 53"
    by (simp add: field_simps)
  have notint: "(1000 :: real) / 45 \<notin> \<int>"
    using quotient_1000_45_not_whole by simp
  have o: "opt_rateLimit scenario_options = None" by (simp add: scenario_options_def)
  have z: "js_divide scenario_world 1000
      (case opt_rateLimit (scenario_options\<lparr> opt_rateLimit := Some 0 \<rparr>) of None \<Rightarrow> 45 | Some r \<Rightarrow> r) =
        PosInfinity"
    by (simp add: scenario_world_def scenario_divide_def)
  show ?thesis
    using interval_is_ceiling_for_whole_rates [of scenario_world scenario_options
        "6254999482459022 / 2 ^ 48"]
      interval_is_ceiling_for_whole_rates [of scenario_world
        "scenario_options\<lparr> opt_rateLimit := Some 0 \<rparr>" 0]
      d near notint o z
    by auto
qed

text \<open>
  The claim as it was stated fails at a positive rate that is not a whole number: for the
  rate \<^verbatim>\<open>333.3333333333333\<close> the exact quotient lies just above 3, so its ceiling is 4, and
  the double nearest to it is 3, so the interval is 3.
\<close>

theorem fractional_rate_counterexample:
  "0 < rate_near_third \<and>
   \<bar>3 - 1000 / rate_near_third\<bar> \<le> 1 / 2 ^ 52 \<and>
   js_divide scenario_world 1000 rate_near_third = Finite 3 \<and>
   keyVaultRateLimitMinTime
     (new_DotenvAzure scenario_world (scenario_options\<lparr> opt_rateLimit := Some rate_near_third \<rparr>)) =
     Finite 3 \<and>
   \<lceil>1000 / rate_near_third\<rceil> = 4"
proof -
  have q: "1000 / rate_near_third = 3 + 1 / 5864062014805333"
    by (simp add: rate_near_third_def field_simps)
  have c: "\<lceil>1000 / rate_near_third\<rceil> = 4"
    unfolding q by (simp add: ceiling_eq_iff)
  have n: "\<bar>3 - 1000 / rate_near_third\<bar> \<le> 1 / 2 ^ 52"
    unfolding q by simp
  have p: "0 < rate_near_third" by (simp add: rate_near_third_def)
  have d: "js_divide scenario_world 1000 rate_near_third = Finite 3"
    using p by (simp add: scenario_world_def scenario_divide_def rate_near_third_def)
  have i: "keyVaultRateLimitMinTime
     (new_DotenvAzure scenario_world (scenario_options\<lparr> opt_rateLimit := Some rate_near_third \<rparr>)) =
     Finite 3"
    using d by (simp add: new_DotenvAzure_def)
  show ?thesis using p n d i c by simp
qed

section \<open>The remote configuration fetcher\<close>






section \<open>The merge\<close>

text \<open>
  C5. When neither the constructor nor the overlay of \<^verbatim>\<open>process.env\<close> on the local values
  gives a connection string, \<open>loadFromAzure\<close>, \<open>parse\<close> and \<open>config\<close> raise
  \<open>MissingAppConfigCredentialsError\<close> and leave the instance and the list of outside calls
  as they were: no client has been built and no request made. (\<open>config\<close> has run
  \<^verbatim>\<open>dotenv.config\<close> by then, which reads the local file and writes \<^verbatim>\<open>process.env\<close>.)
\<close>

theorem missing_credentials_before_remote:
  "(\<not> truthy (connectionString (self s)) \<and>
    \<not> truthy (get_prop (spread dotenvVars ++ process_env s) ''AZURE_APP_CONFIG_CONNECTION_STRING'')
    \<longrightarrow> loadFromAzure W dotenvVars s = (Inl MissingAppConfigCredentialsError, s)) \<and>
   (\<not> truthy (connectionString (self s)) \<and>
    \<not> truthy (get_prop (dotenv_parse W src parse_options ++ process_env s)
                 ''AZURE_APP_CONFIG_CONNECTION_STRING'')
    \<longrightarrow> parse W src parse_options s = (Inl MissingAppConfigCredentialsError, s)) \<and>
   (\<not> truthy (connectionString (self s)) \<and>
    \<not> truthy (get_prop (spread (dotenv_parsed (fst (dotenv_config W options (process_env s))))
                         ++ snd (dotenv_config W options (process_env s)))
                 ''AZURE_APP_CONFIG_CONNECTION_STRING'')
    \<longrightarrow> config W options s =
          (Inl MissingAppConfigCredentialsError,
           s\<lparr> process_env := snd (dotenv_config W options (process_env s)) \<rparr>))"
proof -
  have load: "loadFromAzure W d t = (Inl MissingAppConfigCredentialsError, t)"
    if "\<not> truthy (connectionString (self t))"
      and "\<not> truthy (get_prop (spread d ++ process_env t) ''AZURE_APP_CONFIG_CONNECTION_STRING'')"
    for d t
    using that
    by (auto simp: loadFromAzure_def getAzureCredentials_def js_or_def truthy_def spread_def
        split: option.splits)
  show ?thesis
  proof (intro conjI impI)
    assume "\<not> truthy (connectionString (self s)) \<and>
      \<not> truthy (get_prop (spread dotenvVars ++ process_env s) ''AZURE_APP_CONFIG_CONNECTION_STRING'')"
    then show "loadFromAzure W dotenvVars s = (Inl MissingAppConfigCredentialsError, s)"
      using load by blast
  next
    assume "\<not> truthy (connectionString (self s)) \<and>
      \<not> truthy (get_prop (dotenv_parse W src parse_options ++ process_env s)
                   ''AZURE_APP_CONFIG_CONNECTION_STRING'')"
    then have "loadFromAzure W (Some (dotenv_parse W src parse_options)) s =
        (Inl MissingAppConfigCredentialsError, s)"
      using load [of s "Some (dotenv_parse W src parse_options)"] by (simp add: spread_def)
    then show "parse W src parse_options s = (Inl MissingAppConfigCredentialsError, s)"
      by (simp add: parse_def)
  next
    let ?s0 = "s\<lparr> process_env := snd (dotenv_config W options (process_env s)) \<rparr>"
    assume "\<not> truthy (connectionString (self s)) \<and>
      \<not> truthy (get_prop (spread (dotenv_parsed (fst (dotenv_config W options (process_env s))))
                           ++ snd (dotenv_config W options (process_env s)))
                   ''AZURE_APP_CONFIG_CONNECTION_STRING'')"
    then have "loadFromAzure W (dotenv_parsed (fst (dotenv_config W options (process_env s)))) ?s0 =
        (Inl MissingAppConfigCredentialsError, ?s0)"
      using load [of ?s0 "dotenv_parsed (fst (dotenv_config W options (process_env s)))"] by simp
    then show "config W options s = (Inl MissingAppConfigCredentialsError, ?s0)"
      by (simp add: config_def Let_def)
  qed
qed

theorem missing_credentials_before_remote_witness:
  "\<not> truthy (connectionString (self (scenario_state\<lparr> process_env := Map.empty \<rparr>))) \<and>
   \<not> truthy (get_prop (spread (Some scenario_local) ++ process_env (scenario_state\<lparr> process_env := Map.empty \<rparr>))
               ''AZURE_APP_CONFIG_CONNECTION_STRING'') \<and>
   loadFromAzure scenario_world (Some scenario_local) (scenario_state\<lparr> process_env := Map.empty \<rparr>) =
     (Inl MissingAppConfigCredentialsError, scenario_state\<lparr> process_env := Map.empty \<rparr>) \<and>
   parse scenario_world ''A=1'' None (scenario_state\<lparr> process_env := Map.empty \<rparr>) =
     (Inl MissingAppConfigCredentialsError, scenario_state\<lparr> process_env := Map.empty \<rparr>) \<and>
   fst (config scenario_world scenario_config_options (scenario_state\<lparr> process_env := Map.empty \<rparr>)) =
     Inl MissingAppConfigCredentialsError \<and>
   events (snd (config scenario_world scenario_config_options
                  (scenario_state\<lparr> process_env := Map.empty \<rparr>))) = []"
  using missing_credentials_before_remote [of "scenario_state\<lparr> process_env := Map.empty \<rparr>"
      "Some scenario_local" scenario_world "''A=1''" None scenario_config_options]
  by (simp add: scenario_state_def scenario_instance_def scenario_local_def scenario_world_def
      scenario_config_options_def truthy_def get_prop_def spread_def)



text \<open>\<open>Object_entries\<close> reorders and loses nothing; and where every request to a vault
  rejects, a non-empty set of references makes the whole phase reject.\<close>

lemma set_Object_entries: "set (Object_entries obj) = set obj"
  by (auto simp: Object_entries_def)

lemma rejections_of_rejected_first:
  "rejections (Some t # outcomes) i \<noteq> []"
  by simp

lemma getSecret_task_rejects:
  assumes "\<And>vault name version. \<exists>t. getSecret W vault name version = Inl t"
  shows "\<exists>t. fst (getSecret_task W k info secrets s) = Some t"
proof -
  obtain t where "getSecret W (href (vaultUrl info)) (secretName info) (secretVersion info) = Inl t"
    using assms by blast
  then show ?thesis
    by (auto simp: getSecret_task_def Let_def split: prod.splits option.splits)
qed

lemma phase_fails_when_every_request_rejects:
  assumes "\<And>vault name version. \<exists>t. getSecret W vault name version = Inl t"
    and "vars \<noteq> []"
  shows "\<exists>t. fst (getSecretsFromKeyVault W vars s) = Inl t"
proof -
  have "Object_entries vars \<noteq> []"
    using assms(2) set_Object_entries [of vars] by (metis set_empty)
  then obtain entry rest where v: "Object_entries vars = entry # rest"
    by (cases "Object_entries vars") auto
  obtain t where t: "fst (getSecret_task W (fst entry) (snd entry) Map.empty s) = Some t"
    using getSecret_task_rejects [OF assms(1)] by blast
  obtain secrets1 s1 where
    g: "getSecret_task W (fst entry) (snd entry) Map.empty s = (Some t, secrets1, s1)"
    using t by (cases "getSecret_task W (fst entry) (snd entry) Map.empty s") auto
  obtain outcomes secrets s' where
    rest: "run_scheduled W rest secrets1 s1 = (outcomes, secrets, s')"
    by (cases "run_scheduled W rest secrets1 s1") auto
  have r: "run_scheduled W (entry # rest) Map.empty s = (Some t # outcomes, secrets, s')"
    by (simp add: g rest)
  show ?thesis
    unfolding getSecretsFromKeyVault_def Let_def v r
    by (auto split: prod.splits list.splits)
qed

text \<open>
  C2, as the code has it. When the client and the enumeration succeed and
  \<open>getSecretsFromKeyVault\<close> rejects, \<open>loadFromAzure\<close> does not raise: it returns exactly the
  plain values of the store. After the calls of the secret phase it writes one warning
  when the value the phase rejected with is an \<^verbatim>\<open>Error\<close> (the \<^verbatim>\<open>instanceof\<close> test of the
  \<^verbatim>\<open>catch\<close> block), and nothing when it is not.
\<close>

theorem vault_failure_is_not_fatal:
  assumes "getAzureCredentials (self s) dotenvVars (process_env s) = Inr credentials"
    and "new_AppConfigurationClient W (credentials_connectionString credentials) = Inr client"
    and "getAppConfigurations W client
           (log_event (NewAppConfigurationClient (credentials_connectionString credentials)) s) =
         (Inr ac, s2)"
    and "getSecretsFromKeyVault W (keyVaultReferences ac) s2 = (Inl t, s3)"
  shows "loadFromAzure W dotenvVars s =
           (Inr (appConfigVars ac),
            case t of
              ErrorObject message \<Rightarrow>
                log_event (ConsoleWarn [''[Warning] Unable to load secrets from Key Vault: '', message]) s3
            | OtherValue \<Rightarrow> s3)"
  using assms by (simp add: loadFromAzure_def Let_def)

theorem vault_failure_is_not_fatal_witness:
  "getAzureCredentials (self scenario_state) None (process_env scenario_state) =
     Inr \<lparr> credentials_connectionString = scenario_connection \<rparr> \<and>
   new_AppConfigurationClient (vault_down (ErrorObject ''unreachable'')) scenario_connection =
     Inr \<lparr> settings = [setting_B, setting_C], failure = None \<rparr> \<and>
   getAppConfigurations (vault_down (ErrorObject ''unreachable''))
       \<lparr> settings = [setting_B, setting_C], failure = None \<rparr>
       (log_event (NewAppConfigurationClient scenario_connection) scenario_state) =
     (Inr scenario_fetched, scenario_listed) \<and>
   getSecretsFromKeyVault (vault_down (ErrorObject ''unreachable''))
       (keyVaultReferences scenario_fetched) scenario_listed =
     (Inl (ErrorObject ''unreachable''), scenario_requested) \<and>
   loadFromAzure (vault_down (ErrorObject ''unreachable'')) None scenario_state =
     (Inr [''B'' \<mapsto> Some ''2''],
      log_event (ConsoleWarn [''[Warning] Unable to load secrets from Key Vault: '', ''unreachable''])
        scenario_requested)"
proof -
  let ?W = "vault_down (ErrorObject ''unreachable'')"
  let ?cr = "\<lparr> credentials_connectionString = scenario_connection \<rparr>"
  have a: "getAzureCredentials (self scenario_state) None (process_env scenario_state) = Inr ?cr"
    by (simp add: class_defs scenario_defs)
  have b: "new_AppConfigurationClient ?W (credentials_connectionString ?cr) =
     Inr \<lparr> settings = [setting_B, setting_C], failure = None \<rparr>"
    by (simp add: vault_down_def scenario_world_def)
  have c: "getAppConfigurations ?W \<lparr> settings = [setting_B, setting_C], failure = None \<rparr>
       (log_event (NewAppConfigurationClient (credentials_connectionString ?cr)) scenario_state) =
     (Inr scenario_fetched, scenario_listed)"
    by (simp add: class_defs scenario_defs)
  have d: "getSecretsFromKeyVault ?W (keyVaultReferences scenario_fetched) scenario_listed =
     (Inl (ErrorObject ''unreachable''), scenario_requested)"
    by (simp add: class_defs scenario_defs)
  have f: "appConfigVars scenario_fetched = [''B'' \<mapsto> Some ''2'']"
    by (simp add: scenario_fetched_def)
  show ?thesis
    using vault_failure_is_not_fatal [OF a b c d] a b c d f by simp
qed

text \<open>
  The claim as it was stated fails where the vault rejects with a value that is no
  \<^verbatim>\<open>Error\<close>: the plain values are returned and no warning is written.
\<close>

theorem silent_failure_counterexample:
  "getSecretsFromKeyVault (vault_down OtherValue) (keyVaultReferences scenario_fetched)
       scenario_listed =
     (Inl OtherValue, scenario_requested) \<and>
   fst (loadFromAzure (vault_down OtherValue) None scenario_state) = Inr [''B'' \<mapsto> Some ''2''] \<and>
   events (snd (loadFromAzure (vault_down OtherValue) None scenario_state)) =
     [NewAppConfigurationClient scenario_connection,
      ListConfigurationSettings,
      NewSecretClient ''https://kv.vault.azure.net/'',
      GetSecret ''https://kv.vault.azure.net/'' ''s'' None]"
  by (simp add: class_defs scenario_defs)

text \<open>
  C3, as the code has it. \<open>loadFromAzure\<close> returns \<^verbatim>\<open>{ ...appConfigVars, ...keyVaultSecrets }\<close>:
  a key that has a resolved secret is mapped to the secret, and only a key without one to
  its plain value. \<open>parse\<close> (and \<open>config\<close>, by C1) lays the local values over that. From
  lowest to highest: plain remote values, resolved secrets, local values.
\<close>

theorem secrets_override_plain_values:
  assumes "getAzureCredentials (self s) dotenvVars (process_env s) = Inr credentials"
    and "new_AppConfigurationClient W (credentials_connectionString credentials) = Inr client"
    and "getAppConfigurations W client
           (log_event (NewAppConfigurationClient (credentials_connectionString credentials)) s) =
         (Inr ac, s2)"
    and "getSecretsFromKeyVault W (keyVaultReferences ac) s2 = (Inr secrets, s3)"
  shows "(\<exists>merged. loadFromAzure W dotenvVars s = (Inr merged, s3) \<and>
            (\<forall>k. merged k = (case secrets k of Some v \<Rightarrow> Some v | None \<Rightarrow> appConfigVars ac k))) \<and>
         (dotenvVars = Some (dotenv_parse W src parse_options) \<longrightarrow>
            (\<exists>joined. parse W src parse_options s = (Inr joined, s3) \<and>
               (\<forall>k. joined k =
                  (case dotenv_parse W src parse_options k of
                     Some v \<Rightarrow> Some v
                   | None \<Rightarrow> (case secrets k of Some v \<Rightarrow> Some v | None \<Rightarrow> appConfigVars ac k)))))"
proof -
  have l: "loadFromAzure W dotenvVars s = (Inr (appConfigVars ac ++ secrets), s3)"
    using assms by (simp add: loadFromAzure_def Let_def)
  have m: "(appConfigVars ac ++ secrets) k =
      (case secrets k of Some v \<Rightarrow> Some v | None \<Rightarrow> appConfigVars ac k)" for k
    by (simp add: map_add_def split: option.splits)
  have "parse W src parse_options s =
      (Inr ((appConfigVars ac ++ secrets) ++ dotenv_parse W src parse_options), s3)"
    if "dotenvVars = Some (dotenv_parse W src parse_options)"
    using l that by (simp add: parse_def Let_def spread_def)
  then show ?thesis
    using l m by (auto simp: map_add_def split: option.splits)
qed

theorem secrets_override_plain_values_witness:
  "getAzureCredentials (self scenario_state) (Some scenario_local) (process_env scenario_state) =
     Inr \<lparr> credentials_connectionString = scenario_connection \<rparr> \<and>
   new_AppConfigurationClient two_labels_world scenario_connection =
     Inr \<lparr> settings = [setting_C_plain, setting_C], failure = None \<rparr> \<and>
   getAppConfigurations two_labels_world
       \<lparr> settings = [setting_C_plain, setting_C], failure = None \<rparr>
       (log_event (NewAppConfigurationClient scenario_connection) scenario_state) =
     (Inr \<lparr> appConfigVars = [''C'' \<mapsto> Some ''plain''],
            keyVaultReferences = [(''C'', scenario_info)] \<rparr>,
      scenario_listed) \<and>
   getSecretsFromKeyVault two_labels_world [(''C'', scenario_info)] scenario_listed =
     (Inr [''C'' \<mapsto> Some ''3''], scenario_requested) \<and>
   Some scenario_local = Some (dotenv_parse two_labels_world ''A=1'' None) \<and>
   (\<exists>merged. loadFromAzure two_labels_world (Some scenario_local) scenario_state =
        (Inr merged, scenario_requested) \<and>
      merged ''C'' = Some (Some ''3'')) \<and>
   (\<exists>joined. parse two_labels_world ''A=1'' None scenario_state = (Inr joined, scenario_requested) \<and>
      joined ''C'' = Some (Some ''3'') \<and> joined ''A'' = Some (Some ''1''))"
proof -
  let ?W = two_labels_world
  let ?client = "\<lparr> settings = [setting_C_plain, setting_C], failure = None \<rparr>"
  let ?ac = "\<lparr> appConfigVars = [''C'' \<mapsto> Some ''plain''],
               keyVaultReferences = [(''C'', scenario_info)] \<rparr>"
  let ?cr = "\<lparr> credentials_connectionString = scenario_connection \<rparr>"
  have a: "getAzureCredentials (self scenario_state) (Some scenario_local) (process_env scenario_state) =
     Inr ?cr"
    by (simp add: class_defs scenario_defs)
  have b: "new_AppConfigurationClient ?W (credentials_connectionString ?cr) = Inr ?client"
    by (simp add: two_labels_world_def scenario_world_def)
  have c: "getAppConfigurations ?W ?client
       (log_event (NewAppConfigurationClient (credentials_connectionString ?cr)) scenario_state) =
     (Inr ?ac, scenario_listed)"
    by (simp add: class_defs scenario_defs)
  have d: "getSecretsFromKeyVault ?W (keyVaultReferences ?ac) scenario_listed =
     (Inr [''C'' \<mapsto> Some ''3''], scenario_requested)"
    by (simp add: class_defs scenario_defs)
  have p: "Some scenario_local = Some (dotenv_parse ?W ''A=1'' None)"
    by (simp add: two_labels_world_def scenario_world_def)
  show ?thesis
    using secrets_override_plain_values [OF a b c d, of "''A=1''" None] a b c d p
    by (auto simp: scenario_local_def two_labels_world_def scenario_world_def)
qed

text \<open>
  The claim as it was stated fails where the store lists \<^verbatim>\<open>C\<close> both as the plain value
  \<^verbatim>\<open>plain\<close> and as a reference to the secret whose value is \<^verbatim>\<open>3\<close>: \<open>loadFromAzure\<close> maps \<^verbatim>\<open>C\<close>
  to \<^verbatim>\<open>3\<close>.
\<close>

theorem secret_wins_counterexample:
  "getAppConfigurations two_labels_world
       \<lparr> settings = [setting_C_plain, setting_C], failure = None \<rparr>
       (log_event (NewAppConfigurationClient scenario_connection) scenario_state) =
     (Inr \<lparr> appConfigVars = [''C'' \<mapsto> Some ''plain''],
            keyVaultReferences = [(''C'', scenario_info)] \<rparr>,
      scenario_listed) \<and>
   getSecretsFromKeyVault two_labels_world [(''C'', scenario_info)] scenario_listed =
     (Inr [''C'' \<mapsto> Some ''3''], scenario_requested) \<and>
   loadFromAzure two_labels_world None scenario_state =
     (Inr [''C'' \<mapsto> Some ''3''], scenario_requested)"
  by (simp add: class_defs scenario_defs)

end
